theory Spec2Isabelle
  imports Main
begin

section \<open>The blogging API: resolvers, error formatter and error handler\<close>

text \<open>
  The source file holds two modules: the entry point (body parsing, CORS, the image
  route, the GraphQL route with its \<^verbatim>\<open>formatError\<close>, the Express error handler) and
  the resolver object (createUser, login, createPost, posts, post, updatePost,
  deletePost, user, updateStatus). Each resolver is an async function: it either
  rejects with an error object or resolves with a value. Inside most resolvers the
  work is wrapped in \<^verbatim>\<open>try { ... } catch (err) { console.log(err); }\<close>, so an error
  thrown inside the block is written to the console and the function resolves with
  \<^verbatim>\<open>undefined\<close>.
\<close>

subsection \<open>Error objects\<close>

text \<open>
  A JavaScript \<^verbatim>\<open>Error\<close> as the code uses it: the message given to the constructor
  and the properties the code attaches afterwards (\<^verbatim>\<open>error.code = 401\<close>,
  \<^verbatim>\<open>error.data = errors\<close>); a property never assigned is \<^verbatim>\<open>undefined\<close>, here None.
  The field messages pushed to \<^verbatim>\<open>errors\<close> are objects with the single property
  \<^verbatim>\<open>message\<close>, kept as their strings.
\<close>

record js_error =
  message :: string
  code :: "nat option"
  statusCode :: "nat option"
  data :: "string list option"

definition new_Error :: "string \<Rightarrow> js_error" where
  "new_Error msg = \<lparr>message = msg, code = None, statusCode = None, data = None\<rparr>"

text \<open>
  Reading a property of \<^verbatim>\<open>null\<close> or \<^verbatim>\<open>undefined\<close> throws a TypeError; it carries no
  code and no data.
\<close>

definition TypeError :: js_error where
  "TypeError = new_Error ''TypeError: Cannot read property of null''"

subsection \<open>Documents and the store\<close>

text \<open>
  Modelled from the spec: the models (models/user, models/post) are not among the
  source files. A User has an email, a display name, a hashed password, a free-text
  status and the ordered collection of its posts; a Post has a title, content, an
  image path, its creator and server-assigned creation and update timestamps. An
  ObjectId is a natural number (its \<^verbatim>\<open>toString\<close> is injective, so comparing the strings
  is comparing the ids), a timestamp a natural number (\<^verbatim>\<open>toISOString\<close> is injective).
\<close>

type_synonym object_id = nat

record user_doc =
  u_id :: object_id
  u_email :: string
  u_name :: string
  u_password :: string
  u_status :: string
  u_posts :: "object_id list"

record post_doc =
  p_id :: object_id
  p_title :: string
  p_content :: string
  p_imageUrl :: string
  p_creator :: object_id
  p_createdAt :: nat
  p_updatedAt :: nat

text \<open>
  The state the resolvers act on: the two collections in insertion order, the image
  files on disk, the next ObjectId the driver hands out, and the console (the errors
  written by \<^verbatim>\<open>console.log\<close>, oldest first).
\<close>

record world =
  User_docs :: "user_doc list"
  Post_docs :: "post_doc list"
  files :: "string list"
  next_id :: object_id
  console :: "js_error list"

text \<open>
  What the resolvers take from their libraries and from the process: the email check of
  the validator package, bcrypt's hash and compare, the token signer (with the secret
  and the one-hour expiry fixed), the status a new User document starts with (set by the
  model, which is not among the source files) and the time at which a document is saved.
\<close>

record env =
  isEmail :: "string \<Rightarrow> bool"
  bcrypt_hash :: "string \<Rightarrow> string"
  bcrypt_compare :: "string \<Rightarrow> string \<Rightarrow> bool"
  jwt_sign :: "object_id \<Rightarrow> string \<Rightarrow> string"
  default_status :: string
  now :: nat

text \<open>
  Modelled from the spec: the auth middleware (middleware/auth) is not among the source
  files. It marks the request authenticated and attaches the decoded user id, or marks
  it unauthenticated and continues; this is the request as it leaves it.
\<close>

record request =
  isAuth :: bool
  userId :: "object_id option"

record postInputData =
  title :: string
  content :: string
  imageUrl :: string

text \<open>What a resolver resolves with.\<close>

datatype resolved =
    Undefined
  | UserDoc user_doc
  | PostDoc post_doc "user_doc option"
  | AuthData string object_id
  | PostData "(post_doc \<times> user_doc option) list" nat
  | JTrue

datatype outcome = Rejected js_error | Resolved resolved

subsection \<open>The validator package\<close>

text \<open>
  \<^verbatim>\<open>validator.isEmpty(str)\<close> is \<^verbatim>\<open>str.length === 0\<close>; \<^verbatim>\<open>validator.isLength(str, { min })\<close>
  is \<^verbatim>\<open>len >= min\<close> with no upper bound, where \<^verbatim>\<open>len\<close> counts a surrogate pair once:
  a string is the list of its characters.
\<close>

definition isEmpty :: "string \<Rightarrow> bool" where
  "isEmpty str = (length str = 0)"

definition isLength :: "string \<Rightarrow> nat \<Rightarrow> bool" where
  "isLength str mn = (mn \<le> length str)"

subsection \<open>The persistence layer\<close>

text \<open>
  \<^verbatim>\<open>Model.findOne\<close> and \<^verbatim>\<open>Model.findById\<close> give the first matching document or null;
  \<^verbatim>\<open>findById(undefined)\<close> gives null. \<^verbatim>\<open>doc.save()\<close> on a loaded document writes it
  over the first document with its id; \<^verbatim>\<open>populate('creator')\<close> replaces the creator's
  id by the User document, or by null when there is none.
\<close>

definition User_findOne :: "string \<Rightarrow> world \<Rightarrow> user_doc option" where
  "User_findOne email w = find (\<lambda>u. u_email u = email) (User_docs w)"

definition User_findById :: "object_id option \<Rightarrow> world \<Rightarrow> user_doc option" where
  "User_findById i w =
     (case i of None \<Rightarrow> None | Some k \<Rightarrow> find (\<lambda>u. u_id u = k) (User_docs w))"

definition Post_findById :: "object_id \<Rightarrow> world \<Rightarrow> post_doc option" where
  "Post_findById i w = find (\<lambda>p. p_id p = i) (Post_docs w)"

fun user_save :: "user_doc \<Rightarrow> user_doc list \<Rightarrow> user_doc list" where
  "user_save d [] = []"
| "user_save d (u # us) = (if u_id u = u_id d then d # us else u # user_save d us)"

fun post_save :: "post_doc \<Rightarrow> post_doc list \<Rightarrow> post_doc list" where
  "post_save d [] = []"
| "post_save d (p # ps) = (if p_id p = p_id d then d # ps else p # post_save d ps)"

definition populate :: "post_doc \<Rightarrow> world \<Rightarrow> post_doc \<times> user_doc option" where
  "populate p w = (p, User_findById (Some (p_creator p)) w)"

text \<open>
  Modelled from the spec: util/file (\<^verbatim>\<open>clearImage\<close>) is not among the source files;
  the spec has it delete the stored image file at the given path.
\<close>

definition clearImage :: "string \<Rightarrow> world \<Rightarrow> world" where
  "clearImage filePath w = w\<lparr>files := filter (\<lambda>f. f \<noteq> filePath) (files w)\<rparr>"

subsection \<open>The try block\<close>

text \<open>
  \<^verbatim>\<open>try { ... return v; } catch (err) { console.log(err); }\<close>: the block either returns
  a value or throws; what it wrote to the store before throwing stays written. After
  the catch the function ends, so the promise resolves with \<^verbatim>\<open>undefined\<close>.
\<close>

definition catch_log :: "(js_error + resolved) \<times> world \<Rightarrow> outcome \<times> world" where
  "catch_log r =
     (case r of
        (Inl err, w) \<Rightarrow> (Resolved Undefined, w\<lparr>console := console w @ [err]\<rparr>)
      | (Inr v, w) \<Rightarrow> (Resolved v, w))"

subsection \<open>createUser and login\<close>

text \<open>
  createUser takes \<^verbatim>\<open>email\<close>, \<^verbatim>\<open>name\<close> and \<^verbatim>\<open>password\<close> from \<^verbatim>\<open>args.userInput\<close>. The
  two field checks push their messages to \<^verbatim>\<open>errors\<close>, and a non-empty list is thrown
  as \<^verbatim>\<open>Invalid input.\<close> with code 422 before the try block is entered. The block looks
  the email up, throws \<^verbatim>\<open>User exists already.\<close> (no code attached) when it is found,
  and otherwise stores the new user with the hashed password and returns its document.
\<close>

definition createUser_try ::
  "env \<Rightarrow> string \<Rightarrow> string \<Rightarrow> string \<Rightarrow> world \<Rightarrow> (js_error + resolved) \<times> world" where
  "createUser_try e email name password w =
     (case User_findOne email w of
        Some existingUser \<Rightarrow> (Inl (new_Error ''User exists already.''), w)
      | None \<Rightarrow>
          (let hashedPassword = bcrypt_hash e password;
               createdUser = \<lparr>u_id = next_id w, u_email = email, u_name = name,
                              u_password = hashedPassword, u_status = default_status e,
                              u_posts = []\<rparr>
           in (Inr (UserDoc createdUser),
               w\<lparr>User_docs := User_docs w @ [createdUser], next_id := Suc (next_id w)\<rparr>)))"

definition createUser ::
  "env \<Rightarrow> string \<Rightarrow> string \<Rightarrow> string \<Rightarrow> world \<Rightarrow> outcome \<times> world" where
  "createUser e email name password w =
     (let errors =
            (if \<not> isEmail e email then [''Invalid email.''] else []) @
            (if isEmpty password \<or> \<not> isLength password 5
             then [''Password too short.''] else [])
      in if length errors > 0
         then (Rejected ((new_Error ''Invalid input.'')\<lparr>data := Some errors, code := Some 422\<rparr>), w)
         else catch_log (createUser_try e email name password w))"

text \<open>
  login has no check outside its try block: both of its errors (unknown email, wrong
  password, each with code 401) are thrown inside it.
\<close>

definition login_try ::
  "env \<Rightarrow> string \<Rightarrow> string \<Rightarrow> world \<Rightarrow> (js_error + resolved) \<times> world" where
  "login_try e email password w =
     (case User_findOne email w of
        None \<Rightarrow> (Inl ((new_Error ''User not found.'')\<lparr>code := Some 401\<rparr>), w)
      | Some usr \<Rightarrow>
          (let isEqual = bcrypt_compare e password (u_password usr)
           in if \<not> isEqual
              then (Inl ((new_Error ''Incorrect password.'')\<lparr>code := Some 401\<rparr>), w)
              else (let token = jwt_sign e (u_id usr) (u_email usr)
                    in (Inr (AuthData token (u_id usr)), w))))"

definition login :: "env \<Rightarrow> string \<Rightarrow> string \<Rightarrow> world \<Rightarrow> outcome \<times> world" where
  "login e email password w = catch_log (login_try e email password w)"

subsection \<open>createPost, posts and post\<close>

text \<open>
  createPost: the authorization gate, then the two field checks, both outside the try
  block; inside it the user is loaded (\<^verbatim>\<open>Invalid user.\<close>, code 401, when there is
  none), the post is saved, its id is pushed to the user's posts and the user is saved.
\<close>

definition createPost_try ::
  "env \<Rightarrow> postInputData \<Rightarrow> request \<Rightarrow> world \<Rightarrow> (js_error + resolved) \<times> world" where
  "createPost_try e postInput req w =
     (case User_findById (userId req) w of
        None \<Rightarrow> (Inl ((new_Error ''Invalid user.'')\<lparr>code := Some 401\<rparr>), w)
      | Some usr \<Rightarrow>
          (let createdPost = \<lparr>p_id = next_id w, p_title = title postInput,
                              p_content = content postInput, p_imageUrl = imageUrl postInput,
                              p_creator = u_id usr, p_createdAt = now e, p_updatedAt = now e\<rparr>;
               w1 = w\<lparr>Post_docs := Post_docs w @ [createdPost], next_id := Suc (next_id w)\<rparr>;
               usr1 = usr\<lparr>u_posts := u_posts usr @ [p_id createdPost]\<rparr>;
               w2 = w1\<lparr>User_docs := user_save usr1 (User_docs w1)\<rparr>
           in (Inr (PostDoc createdPost (Some usr1)), w2)))"

definition createPost ::
  "env \<Rightarrow> postInputData \<Rightarrow> request \<Rightarrow> world \<Rightarrow> outcome \<times> world" where
  "createPost e postInput req w =
     (if \<not> isAuth req
      then (Rejected ((new_Error ''Not authenticated!'')\<lparr>code := Some 401\<rparr>), w)
      else
        (let errors =
               (if isEmpty (title postInput) \<or> \<not> isLength (title postInput) 5
                then [''Title is invalid.''] else []) @
               (if isEmpty (content postInput) \<or> \<not> isLength (content postInput) 5
                then [''Content is invalid.''] else [])
         in if length errors > 0
            then (Rejected ((new_Error ''Invalid input.'')\<lparr>data := Some errors, code := Some 422\<rparr>), w)
            else catch_log (createPost_try e postInput req w)))"

text \<open>
  \<^verbatim>\<open>Post.find().sort({ createdAt: -1 }).skip((page - 1) * perPage).limit(perPage)\<close>:
  the collection sorted by creation time, newest first, without its first
  \<^verbatim>\<open>skip\<close> documents, cut to \<^verbatim>\<open>perPage\<close>. The database refuses a negative skip, and the
  query then throws.
\<close>

definition sort_createdAt_desc :: "post_doc list \<Rightarrow> post_doc list" where
  "sort_createdAt_desc ps = rev (sort_key p_createdAt ps)"

definition posts_try :: "int \<Rightarrow> world \<Rightarrow> (js_error + resolved) \<times> world" where
  "posts_try page w =
     (let perPage = 2;
          totalPosts = length (Post_docs w);
          skip = (page - 1) * perPage
      in if skip < 0
         then (Inl (new_Error ''MongoError: Skip value must be non-negative''), w)
         else
           (let found = take (nat perPage) (drop (nat skip) (sort_createdAt_desc (Post_docs w)))
            in (Inr (PostData (map (\<lambda>p. populate p w) found) totalPosts), w)))"

text \<open>
  The page argument is an optional GraphQL Int: \<^verbatim>\<open>!page\<close> holds when it is absent or 0.
\<close>

definition posts :: "int option \<Rightarrow> request \<Rightarrow> world \<Rightarrow> outcome \<times> world" where
  "posts page req w =
     (if \<not> isAuth req
      then (Rejected ((new_Error ''Not authenticated!'')\<lparr>code := Some 401\<rparr>), w)
      else
        (let page1 = (case page of None \<Rightarrow> 1 | Some n \<Rightarrow> if n = 0 then 1 else n)
         in catch_log (posts_try page1 w)))"

definition post_try :: "object_id \<Rightarrow> world \<Rightarrow> (js_error + resolved) \<times> world" where
  "post_try i w =
     (case Post_findById i w of
        None \<Rightarrow> (Inl ((new_Error ''Post not found.'')\<lparr>code := Some 404\<rparr>), w)
      | Some found \<Rightarrow> (Inr (PostDoc found (snd (populate found w))), w))"

definition post :: "object_id \<Rightarrow> request \<Rightarrow> world \<Rightarrow> outcome \<times> world" where
  "post i req w =
     (if \<not> isAuth req
      then (Rejected ((new_Error ''Not authenticated!'')\<lparr>code := Some 401\<rparr>), w)
      else catch_log (post_try i w))"

subsection \<open>updatePost and deletePost\<close>

text \<open>
  In updatePost the post is loaded with its creator populated, so
  \<^verbatim>\<open>post.creator._id\<close> throws a TypeError when the creator's document is gone, and
  \<^verbatim>\<open>req.userId.toString()\<close> throws one when the request carries no user id. The
  checks stand in the order of the source: existence, ownership, then the two field
  checks. The image path is overwritten unless the input is the string
  \<^verbatim>\<open>'undefined'\<close>. A save that changes nothing leaves the update timestamp alone.
\<close>

definition updatePost_try ::
  "env \<Rightarrow> object_id \<Rightarrow> postInputData \<Rightarrow> request \<Rightarrow> world \<Rightarrow> (js_error + resolved) \<times> world" where
  "updatePost_try e i postInput req w =
     (case Post_findById i w of
        None \<Rightarrow> (Inl ((new_Error ''Post not found.'')\<lparr>code := Some 401\<rparr>), w)
      | Some found \<Rightarrow>
          (case snd (populate found w) of
             None \<Rightarrow> (Inl TypeError, w)
           | Some creator \<Rightarrow>
               (case userId req of
                  None \<Rightarrow> (Inl TypeError, w)
                | Some me \<Rightarrow>
                    if u_id creator \<noteq> me
                    then (Inl ((new_Error ''Unauthorized.'')\<lparr>code := Some 403\<rparr>), w)
                    else
                      (let errors =
                             (if isEmpty (title postInput) \<or> \<not> isLength (title postInput) 5
                              then [''Title is invalid.''] else []) @
                             (if isEmpty (content postInput) \<or> \<not> isLength (content postInput) 5
                              then [''Content is invalid.''] else [])
                       in if length errors > 0
                          then (Inl ((new_Error ''Invalid input.'')
                                       \<lparr>data := Some errors, code := Some 422\<rparr>), w)
                          else
                            (let post1 = found\<lparr>p_title := title postInput,
                                               p_content := content postInput\<rparr>;
                                 post2 = (if imageUrl postInput \<noteq> ''undefined''
                                          then post1\<lparr>p_imageUrl := imageUrl postInput\<rparr>
                                          else post1);
                                 updatedPost = (if post2 = found then found
                                                else post2\<lparr>p_updatedAt := now e\<rparr>)
                             in (Inr (PostDoc updatedPost (Some creator)),
                                 w\<lparr>Post_docs := post_save updatedPost (Post_docs w)\<rparr>))))))"

definition updatePost ::
  "env \<Rightarrow> object_id \<Rightarrow> postInputData \<Rightarrow> request \<Rightarrow> world \<Rightarrow> outcome \<times> world" where
  "updatePost e i postInput req w =
     (if \<not> isAuth req
      then (Rejected ((new_Error ''Not authenticated!'')\<lparr>code := Some 401\<rparr>), w)
      else catch_log (updatePost_try e i postInput req w))"

text \<open>
  \<^verbatim>\<open>Post.findByIdAndRemove(id)\<close> removes the first document with the id;
  \<^verbatim>\<open>user.posts.pull(id)\<close> removes every occurrence of the id from the array.
\<close>

fun post_remove :: "object_id \<Rightarrow> post_doc list \<Rightarrow> post_doc list" where
  "post_remove i [] = []"
| "post_remove i (p # ps) = (if p_id p = i then ps else p # post_remove i ps)"

definition deletePost_try :: "object_id \<Rightarrow> request \<Rightarrow> world \<Rightarrow> (js_error + resolved) \<times> world" where
  "deletePost_try i req w =
     (case Post_findById i w of
        None \<Rightarrow> (Inl ((new_Error ''Post not found.'')\<lparr>code := Some 401\<rparr>), w)
      | Some found \<Rightarrow>
          (case userId req of
             None \<Rightarrow> (Inl TypeError, w)
           | Some me \<Rightarrow>
               if p_creator found \<noteq> me
               then (Inl ((new_Error ''Unauthorized.'')\<lparr>code := Some 403\<rparr>), w)
               else
                 (let w1 = clearImage (p_imageUrl found) w;
                      w2 = w1\<lparr>Post_docs := post_remove i (Post_docs w1)\<rparr>
                  in case User_findById (userId req) w2 of
                       None \<Rightarrow> (Inl TypeError, w2)
                     | Some usr \<Rightarrow>
                         (let usr1 = usr\<lparr>u_posts := filter (\<lambda>k. k \<noteq> i) (u_posts usr)\<rparr>
                          in (Inr JTrue, w2\<lparr>User_docs := user_save usr1 (User_docs w2)\<rparr>)))))"

definition deletePost :: "object_id \<Rightarrow> request \<Rightarrow> world \<Rightarrow> outcome \<times> world" where
  "deletePost i req w =
     (if \<not> isAuth req
      then (Rejected ((new_Error ''Not authenticated!'')\<lparr>code := Some 401\<rparr>), w)
      else catch_log (deletePost_try i req w))"

subsection \<open>user and updateStatus\<close>

text \<open>
  Both resolvers load the user of the request inside the try block (\<^verbatim>\<open>User not found.\<close>,
  code 401) and return its whole document, \<^verbatim>\<open>{ ...user._doc, _id }\<close>.
\<close>

definition user_try :: "request \<Rightarrow> world \<Rightarrow> (js_error + resolved) \<times> world" where
  "user_try req w =
     (case User_findById (userId req) w of
        None \<Rightarrow> (Inl ((new_Error ''User not found.'')\<lparr>code := Some 401\<rparr>), w)
      | Some usr \<Rightarrow> (Inr (UserDoc usr), w))"

definition user :: "request \<Rightarrow> world \<Rightarrow> outcome \<times> world" where
  "user req w =
     (if \<not> isAuth req
      then (Rejected ((new_Error ''Not authenticated!'')\<lparr>code := Some 401\<rparr>), w)
      else catch_log (user_try req w))"

definition updateStatus_try :: "string \<Rightarrow> request \<Rightarrow> world \<Rightarrow> (js_error + resolved) \<times> world" where
  "updateStatus_try status req w =
     (case User_findById (userId req) w of
        None \<Rightarrow> (Inl ((new_Error ''User not found.'')\<lparr>code := Some 401\<rparr>), w)
      | Some usr \<Rightarrow>
          (let usr1 = usr\<lparr>u_status := status\<rparr>
           in (Inr (UserDoc usr1), w\<lparr>User_docs := user_save usr1 (User_docs w)\<rparr>)))"

definition updateStatus :: "string \<Rightarrow> request \<Rightarrow> world \<Rightarrow> outcome \<times> world" where
  "updateStatus status req w =
     (if \<not> isAuth req
      then (Rejected ((new_Error ''Not authenticated!'')\<lparr>code := Some 401\<rparr>), w)
      else catch_log (updateStatus_try status req w))"

subsection \<open>The error formatter of the GraphQL route\<close>

text \<open>
  \<^verbatim>\<open>formatError(err)\<close> receives the GraphQL error; an error thrown by a resolver is its
  \<^verbatim>\<open>originalError\<close>, and the GraphQL error carries the same message. The method
  declares \<^verbatim>\<open>data\<close>, \<^verbatim>\<open>message\<close> and \<^verbatim>\<open>code\<close> and returns the object literal
  \<^verbatim>\<open>{ message, status, data }\<close>, whose shorthand properties read the identifiers of
  those names. An identifier is resolved in the method's scope: its own declarations,
  its parameter, the declarations of the file, the names the module wrapper provides
  and the globals of the runtime. Reading an identifier that is declared nowhere
  throws a ReferenceError.
\<close>

record graphql_error =
  gql_message :: string
  originalError :: "js_error option"

datatype js_value =
    JUndefined
  | JNumber nat
  | JString string
  | JMessages "string list"
  | JBinding string

datatype formatted = Unformatted graphql_error | Formatted "(string \<times> js_value) list"

definition app_js_scope :: "string list" where
  "app_js_scope =
     [''path'', ''express'', ''bodyParser'', ''mongoose'', ''multer'', ''graphqlHttp'',
      ''uuidv4'', ''graphqlSchema'', ''graphqlResolver'', ''auth'', ''clearImage'', ''app'',
      ''fileStorage'', ''fileFilter'',
      ''exports'', ''require'', ''module'', ''__filename'', ''__dirname'',
      ''global'', ''globalThis'', ''process'', ''console'', ''Buffer'', ''setTimeout'',
      ''clearTimeout'', ''setInterval'', ''clearInterval'', ''setImmediate'',
      ''clearImmediate'', ''undefined'', ''NaN'', ''Infinity'', ''Object'', ''Array'',
      ''String'', ''Number'', ''Boolean'', ''Error'', ''JSON'', ''Math'', ''Date'',
      ''Promise'', ''Symbol'']"

fun shorthand_properties ::
  "(string \<times> js_value) list \<Rightarrow> string list \<Rightarrow> js_error + (string \<times> js_value) list" where
  "shorthand_properties scope [] = Inr []"
| "shorthand_properties scope (x # xs) =
     (case map_of scope x of
        None \<Rightarrow> Inl (new_Error (''ReferenceError: '' @ x @ '' is not defined''))
      | Some v \<Rightarrow>
          (case shorthand_properties scope xs of
             Inl r \<Rightarrow> Inl r
           | Inr props \<Rightarrow> Inr ((x, v) # props)))"

definition formatError :: "graphql_error \<Rightarrow> js_error + formatted" where
  "formatError err =
     (case originalError err of
        None \<Rightarrow> Inr (Unformatted err)
      | Some orig \<Rightarrow>
          (let data' = (case data orig of None \<Rightarrow> JUndefined | Some ms \<Rightarrow> JMessages ms);
               message' = JString (if gql_message err = [] then ''An error occurred.''
                                   else gql_message err);
               code' = JNumber (case code orig of None \<Rightarrow> 500
                                | Some c \<Rightarrow> if c = 0 then 500 else c);
               scope = [(''data'', data'), (''message'', message'), (''code'', code')] @
                       map (\<lambda>x. (x, JBinding x)) (''err'' # app_js_scope)
           in case shorthand_properties scope [''message'', ''status'', ''data''] of
                Inl r \<Rightarrow> Inl r
              | Inr props \<Rightarrow> Inr (Formatted props)))"

subsection \<open>The image route and the Express error handler\<close>

text \<open>
  The response a handler sends: the status and the JSON body's properties (a property
  that is \<^verbatim>\<open>undefined\<close> is None).
\<close>

record response =
  res_status :: nat
  res_message :: string
  res_data :: "string list option"
  res_filePath :: "string option"

definition error_handler :: "js_error \<Rightarrow> response" where
  "error_handler error =
     (let status = (case statusCode error of None \<Rightarrow> 500 | Some s \<Rightarrow> if s = 0 then 500 else s)
      in \<lparr>res_status = status, res_message = message error, res_data = data error,
          res_filePath = None\<rparr>)"

text \<open>\<^verbatim>\<open>str.replace(a, b)\<close> with a string pattern replaces its first occurrence.\<close>

fun replace_first :: "char \<Rightarrow> char \<Rightarrow> string \<Rightarrow> string" where
  "replace_first a b [] = []"
| "replace_first a b (c # cs) = (if c = a then b # cs else c # replace_first a b cs)"

text \<open>
  The handler of \<^verbatim>\<open>PUT /post-image\<close>, given the path of the uploaded file (None when no
  file came with the request) and the \<^verbatim>\<open>oldPath\<close> of the body (None or the empty
  string is falsy).
\<close>

definition put_post_image ::
  "request \<Rightarrow> string option \<Rightarrow> string option \<Rightarrow> world \<Rightarrow> (js_error + response) \<times> world" where
  "put_post_image req upload oldPath w =
     (if \<not> isAuth req then (Inl (new_Error ''Not authenticated!''), w)
      else
        (case upload of
           None \<Rightarrow> (Inr \<lparr>res_status = 200, res_message = ''No file provided!'',
                         res_data = None, res_filePath = None\<rparr>, w)
         | Some filePath \<Rightarrow>
             (let w1 = (case oldPath of
                          None \<Rightarrow> w
                        | Some old \<Rightarrow> if old = [] then w else clearImage old w);
                  newImageUrl = replace_first (CHR 0x5C) (CHR ''/'') filePath
              in (Inr \<lparr>res_status = 201, res_message = ''File stored.'',
                       res_data = None, res_filePath = Some newImageUrl\<rparr>, w1))))"

subsection \<open>Sample data\<close>

definition sample_env :: env where
  "sample_env =
     \<lparr>isEmail = (\<lambda>s. CHR ''@'' \<in> set s),
      bcrypt_hash = (\<lambda>pw. ''hash:'' @ pw),
      bcrypt_compare = (\<lambda>pw h. h = ''hash:'' @ pw),
      jwt_sign = (\<lambda>i em. ''jwt:'' @ em),
      default_status = ''I am new!'',
      now = 1000\<rparr>"

definition alice :: user_doc where
  "alice = \<lparr>u_id = 1, u_email = ''alice@example.com'', u_name = ''Alice'',
            u_password = ''hash:secret'', u_status = ''I am new!'', u_posts = [10, 12]\<rparr>"

definition bob :: user_doc where
  "bob = \<lparr>u_id = 2, u_email = ''bob@example.com'', u_name = ''Bob'',
          u_password = ''hash:hunter2'', u_status = ''I am new!'', u_posts = [11]\<rparr>"

definition post10 :: post_doc where
  "post10 = \<lparr>p_id = 10, p_title = ''First post'', p_content = ''Some content'',
             p_imageUrl = ''images/a.png'', p_creator = 1, p_createdAt = 100,
             p_updatedAt = 100\<rparr>"

definition post11 :: post_doc where
  "post11 = \<lparr>p_id = 11, p_title = ''Second post'', p_content = ''More content'',
             p_imageUrl = ''images/b.png'', p_creator = 2, p_createdAt = 300,
             p_updatedAt = 300\<rparr>"

definition post12 :: post_doc where
  "post12 = \<lparr>p_id = 12, p_title = ''Third post'', p_content = ''Other content'',
             p_imageUrl = ''images/c.png'', p_creator = 1, p_createdAt = 200,
             p_updatedAt = 200\<rparr>"

definition sample_world :: world where
  "sample_world =
     \<lparr>User_docs = [alice, bob], Post_docs = [post10, post11, post12],
      files = [''images/a.png'', ''images/b.png'', ''images/c.png''],
      next_id = 20, console = []\<rparr>"

definition as_alice :: request where
  "as_alice = \<lparr>isAuth = True, userId = Some 1\<rparr>"

definition as_bob :: request where
  "as_bob = \<lparr>isAuth = True, userId = Some 2\<rparr>"

definition anonymous :: request where
  "anonymous = \<lparr>isAuth = False, userId = None\<rparr>"

section \<open>Properties\<close>

lemmas error_defs = new_Error_def TypeError_def

lemmas store_defs =
  User_findOne_def User_findById_def Post_findById_def populate_def clearImage_def

lemmas sample_defs =
  sample_env_def sample_world_def alice_def bob_def post10_def post11_def post12_def
  as_alice_def as_bob_def anonymous_def

subsection \<open>The store\<close>

lemma find_user_save:
  "find (\<lambda>u. u_id u = k) us = Some usr \<Longrightarrow> u_id d = k \<Longrightarrow>
   find (\<lambda>u. u_id u = k) (user_save d us) = Some d"
  by (induction us) (auto split: if_splits)

lemma find_post_save:
  "find (\<lambda>p. p_id p = k) ps = Some found \<Longrightarrow> p_id d = k \<Longrightarrow>
   find (\<lambda>p. p_id p = k) (post_save d ps) = Some d"
  by (induction ps) (auto split: if_splits)

lemma find_Some_p_id: "find (\<lambda>p. p_id p = k) ps = Some found \<Longrightarrow> p_id found = k"
  by (induction ps) (auto split: if_splits)

lemma find_Some_u_id: "find (\<lambda>u. u_id u = k) us = Some found \<Longrightarrow> u_id found = k"
  by (induction us) (auto split: if_splits)

lemma sorted_desc_sort_createdAt:
  "sorted_wrt (\<lambda>a b. p_createdAt b \<le> p_createdAt a) (sort_createdAt_desc ps)"
proof -
  have "sorted (map p_createdAt (sort_key p_createdAt ps))"
    by (rule sorted_sort_key)
  then have "sorted_wrt (\<lambda>a b. p_createdAt a \<le> p_createdAt b) (sort_key p_createdAt ps)"
    by (simp add: sorted_wrt_map)
  then show ?thesis
    unfolding sort_createdAt_desc_def by (simp add: sorted_wrt_rev)
qed

lemma set_sort_createdAt: "set (sort_createdAt_desc ps) = set ps"
  by (simp add: sort_createdAt_desc_def)

subsection \<open>Resolving with a value\<close>

text \<open>A resolver that resolves with anything but \<^verbatim>\<open>undefined\<close> returned it from its try block.\<close>

lemma catch_log_defined:
  assumes "catch_log r = (Resolved v, w')" and "v \<noteq> Undefined"
  shows "r = (Inr v, w')"
proof (cases r)
  case (Pair x w0)
  with assms show ?thesis by (cases x) (auto simp add: catch_log_def)
qed

subsection \<open>login\<close>

text \<open>
  Whenever the email is that of a stored user and the password does not match its
  hash, the error with code 401 is thrown inside the try block, caught, written to the
  console, and the resolver resolves with \<^verbatim>\<open>undefined\<close>.
\<close>

lemma login_swallows_incorrect_password:
  assumes "User_findOne email w = Some usr"
    and "\<not> bcrypt_compare e password (u_password usr)"
  shows "login e email password w =
           (Resolved Undefined,
            w\<lparr>console := console w @ [(new_Error ''Incorrect password.'')\<lparr>code := Some 401\<rparr>]\<rparr>)"
  using assms by (simp add: login_def login_try_def catch_log_def)

text \<open>
  C1. A login with the email of a stored user and a password that does not match the
  stored hash should reject with an error carrying code 401. At this input (Alice's
  email, the password \<^verbatim>\<open>wrong\<close>) the resolver does not reject: it resolves with
  \<^verbatim>\<open>undefined\<close>, and the 401 error is only on the console. No token is issued.
\<close>

theorem login_incorrect_password_resolves_undefined:
  "User_findOne ''alice@example.com'' sample_world = Some alice \<and>
   bcrypt_compare sample_env ''wrong'' (u_password alice) = False \<and>
   login sample_env ''alice@example.com'' ''wrong'' sample_world =
     (Resolved Undefined,
      sample_world\<lparr>console := [(new_Error ''Incorrect password.'')\<lparr>code := Some 401\<rparr>]\<rparr>)"
  by (simp add: login_def login_try_def catch_log_def store_defs sample_defs)

subsection \<open>createUser\<close>

text \<open>
  With input that passes the field checks and the email of a stored user, the error
  \<^verbatim>\<open>User exists already.\<close> is thrown inside the try block, caught and written to the
  console; the resolver resolves with \<^verbatim>\<open>undefined\<close>.
\<close>

lemma createUser_swallows_user_exists:
  assumes "User_findOne email w = Some existingUser"
    and "isEmail e email" and "5 \<le> length password"
  shows "createUser e email name password w =
           (Resolved Undefined, w\<lparr>console := console w @ [new_Error ''User exists already.'']\<rparr>)"
  using assms
  by (auto simp add: createUser_def createUser_try_def catch_log_def isEmpty_def isLength_def)

text \<open>
  C2. A signup with the email of a stored user should reject with the error
  \<^verbatim>\<open>User exists already.\<close> At this input (Alice's email, a password that passes the
  field checks) the resolver does not reject: it resolves with \<^verbatim>\<open>undefined\<close>, and the
  error is only on the console. No token is issued and no user record is created.
\<close>

theorem createUser_registered_email_resolves_undefined:
  "User_findOne ''alice@example.com'' sample_world = Some alice \<and>
   isEmail sample_env ''alice@example.com'' \<and> isLength ''secret1'' 5 \<and>
   createUser sample_env ''alice@example.com'' ''Alice'' ''secret1'' sample_world =
     (Resolved Undefined, sample_world\<lparr>console := [new_Error ''User exists already.'']\<rparr>)"
  by (simp add: createUser_def createUser_try_def catch_log_def isEmpty_def isLength_def
      store_defs sample_defs)

subsection \<open>Ownership in updatePost and deletePost\<close>

text \<open>
  Whenever the caller is authenticated and is not the creator of the post, the error with
  code 403 is thrown inside the try block, caught and written to the console; the
  resolver resolves with \<^verbatim>\<open>undefined\<close> and the store is as it was.
\<close>

lemma updatePost_swallows_forbidden:
  assumes "isAuth req" and "Post_findById i w = Some found"
    and "User_findById (Some (p_creator found)) w = Some creator"
    and "userId req = Some me" and "u_id creator \<noteq> me"
  shows "updatePost e i postInput req w =
           (Resolved Undefined,
            w\<lparr>console := console w @ [(new_Error ''Unauthorized.'')\<lparr>code := Some 403\<rparr>]\<rparr>)"
  using assms by (simp add: updatePost_def updatePost_try_def catch_log_def populate_def)

lemma deletePost_swallows_forbidden:
  assumes "isAuth req" and "Post_findById i w = Some found"
    and "userId req = Some me" and "p_creator found \<noteq> me"
  shows "deletePost i req w =
           (Resolved Undefined,
            w\<lparr>console := console w @ [(new_Error ''Unauthorized.'')\<lparr>code := Some 403\<rparr>]\<rparr>)"
  using assms by (simp add: deletePost_def deletePost_try_def catch_log_def)

text \<open>
  C3. An updatePost or deletePost by an authenticated user who is not the post's creator
  should fail with an error carrying code 403 and leave the post unchanged. At this
  input (Bob on Alice's post 10) neither resolver fails: both resolve with
  \<^verbatim>\<open>undefined\<close>, the 403 error is only on the console. The post is unchanged.
\<close>

theorem non_owner_update_delete_resolve_undefined:
  "Post_findById 10 sample_world = Some post10 \<and> p_creator post10 = 1 \<and>
   isAuth as_bob \<and> userId as_bob = Some 2 \<and>
   updatePost sample_env 10
       \<lparr>title = ''New title'', content = ''New content'', imageUrl = ''images/n.png''\<rparr>
       as_bob sample_world =
     (Resolved Undefined,
      sample_world\<lparr>console := [(new_Error ''Unauthorized.'')\<lparr>code := Some 403\<rparr>]\<rparr>) \<and>
   deletePost 10 as_bob sample_world =
     (Resolved Undefined,
      sample_world\<lparr>console := [(new_Error ''Unauthorized.'')\<lparr>code := Some 403\<rparr>]\<rparr>)"
  by (simp add: updatePost_def updatePost_try_def deletePost_def deletePost_try_def
      catch_log_def store_defs sample_defs)

subsection \<open>createPost\<close>

text \<open>
  C4. For every authenticated createPost call: if the title or the content is empty or
  shorter than 5 characters, the resolver rejects with the error \<^verbatim>\<open>Invalid input.\<close>
  with code 422, whose data is the list of the field messages; with the title
  \<^verbatim>\<open>Hi\<close> that list holds \<^verbatim>\<open>Title is invalid.\<close>; with the title and the content
  \<^verbatim>\<open>Hello World\<close> there is no validation error, and the post is created and stored
  (the user id of an authenticated request being that of a stored user).
\<close>

theorem createPost_validation:
  assumes "isAuth req"
  shows "(isEmpty (title postInput) \<or> length (title postInput) < 5 \<or>
          isEmpty (content postInput) \<or> length (content postInput) < 5 \<longrightarrow>
            createPost e postInput req w =
              (Rejected ((new_Error ''Invalid input.'')
                 \<lparr>data := Some ((if length (title postInput) < 5 then [''Title is invalid.''] else []) @
                                (if length (content postInput) < 5 then [''Content is invalid.''] else [])),
                  code := Some 422\<rparr>), w)) \<and>
         (title postInput = ''Hi'' \<longrightarrow>
            (\<exists>msgs. fst (createPost e postInput req w) =
                      Rejected ((new_Error ''Invalid input.'')\<lparr>data := Some msgs, code := Some 422\<rparr>) \<and>
                    ''Title is invalid.'' \<in> set msgs)) \<and>
         (title postInput = ''Hello World'' \<and> content postInput = ''Hello World'' \<longrightarrow>
            (\<forall>err. fst (createPost e postInput req w) \<noteq> Rejected err)) \<and>
         (title postInput = ''Hello World'' \<and> content postInput = ''Hello World'' \<and>
          User_findById (userId req) w = Some usr \<longrightarrow>
            (\<exists>created. fst (createPost e postInput req w) =
                          Resolved (PostDoc created
                                      (Some (usr\<lparr>u_posts := u_posts usr @ [p_id created]\<rparr>))) \<and>
                        p_title created = ''Hello World'' \<and> p_content created = ''Hello World'' \<and>
                        p_imageUrl created = imageUrl postInput \<and> p_creator created = u_id usr \<and>
                        Post_docs (snd (createPost e postInput req w)) = Post_docs w @ [created]))"
proof -
  have invalid: "isEmpty (title postInput) \<or> length (title postInput) < 5 \<or>
          isEmpty (content postInput) \<or> length (content postInput) < 5 \<longrightarrow>
            createPost e postInput req w =
              (Rejected ((new_Error ''Invalid input.'')
                 \<lparr>data := Some ((if length (title postInput) < 5 then [''Title is invalid.''] else []) @
                                (if length (content postInput) < 5 then [''Content is invalid.''] else [])),
                  code := Some 422\<rparr>), w)"
    using assms by (auto simp add: createPost_def isEmpty_def isLength_def)
  have hi: "title postInput = ''Hi'' \<longrightarrow>
            (\<exists>msgs. fst (createPost e postInput req w) =
                      Rejected ((new_Error ''Invalid input.'')\<lparr>data := Some msgs, code := Some 422\<rparr>) \<and>
                    ''Title is invalid.'' \<in> set msgs)"
    using assms by (auto simp add: createPost_def isEmpty_def isLength_def)
  have passes: "title postInput = ''Hello World'' \<and> content postInput = ''Hello World'' \<longrightarrow>
            (\<forall>err. fst (createPost e postInput req w) \<noteq> Rejected err)"
    using assms
    by (cases "createPost_try e postInput req w"; cases "fst (createPost_try e postInput req w)")
      (auto simp add: createPost_def catch_log_def isEmpty_def isLength_def)
  have created: "title postInput = ''Hello World'' \<and> content postInput = ''Hello World'' \<and>
          User_findById (userId req) w = Some usr \<longrightarrow>
            (\<exists>created. fst (createPost e postInput req w) =
                          Resolved (PostDoc created
                                      (Some (usr\<lparr>u_posts := u_posts usr @ [p_id created]\<rparr>))) \<and>
                        p_title created = ''Hello World'' \<and> p_content created = ''Hello World'' \<and>
                        p_imageUrl created = imageUrl postInput \<and> p_creator created = u_id usr \<and>
                        Post_docs (snd (createPost e postInput req w)) = Post_docs w @ [created])"
    using assms
    by (auto simp add: createPost_def createPost_try_def catch_log_def isEmpty_def isLength_def
        Let_def)
  from invalid hi passes created show ?thesis by blast
qed

theorem createPost_validation_witness:
  "isAuth as_alice \<and>
   createPost sample_env \<lparr>title = ''Hi'', content = ''Hello World'', imageUrl = ''images/h.png''\<rparr>
       as_alice sample_world =
     (Rejected ((new_Error ''Invalid input.'')
                  \<lparr>data := Some [''Title is invalid.''], code := Some 422\<rparr>), sample_world) \<and>
   (\<exists>created.
      fst (createPost sample_env
             \<lparr>title = ''Hello World'', content = ''Hello World'', imageUrl = ''images/h.png''\<rparr>
             as_alice sample_world) =
        Resolved (PostDoc created (Some (alice\<lparr>u_posts := u_posts alice @ [p_id created]\<rparr>))) \<and>
      p_title created = ''Hello World'' \<and>
      Post_docs (snd (createPost sample_env
             \<lparr>title = ''Hello World'', content = ''Hello World'', imageUrl = ''images/h.png''\<rparr>
             as_alice sample_world)) = [post10, post11, post12, created])"
proof -
  have a: "isAuth as_alice" by (simp add: sample_defs)
  have u: "User_findById (userId as_alice) sample_world = Some alice"
    by (simp add: store_defs sample_defs)
  have p: "Post_docs sample_world = [post10, post11, post12]" by (simp add: sample_defs)
  show ?thesis
    using a u p
      createPost_validation [OF a, of
        "\<lparr>title = ''Hi'', content = ''Hello World'', imageUrl = ''images/h.png''\<rparr>"
        sample_env sample_world alice]
      createPost_validation [OF a, of
        "\<lparr>title = ''Hello World'', content = ''Hello World'', imageUrl = ''images/h.png''\<rparr>"
        sample_env sample_world alice]
    by (auto simp add: isEmpty_def)
qed

subsection \<open>posts\<close>

text \<open>
  C5. For every authenticated posts query, over any stored posts and any page number:
  a returned page holds at most 2 posts, all of them stored posts, ordered by creation
  time descending, and the returned totalPosts is the number of all stored posts; the
  store is unchanged. A page is returned whenever the page number is absent or not
  negative.
\<close>

theorem posts_page:
  assumes "isAuth req"
  shows "(posts page req w = (Resolved (PostData ps totalPosts), w') \<longrightarrow>
            length ps \<le> 2 \<and>
            sorted_wrt (\<lambda>a b. p_createdAt (fst b) \<le> p_createdAt (fst a)) ps \<and>
            set (map fst ps) \<subseteq> set (Post_docs w) \<and>
            totalPosts = length (Post_docs w) \<and> w' = w) \<and>
         (page = None \<or> (\<exists>n. page = Some n \<and> 0 \<le> n) \<longrightarrow>
            (\<exists>found. posts page req w = (Resolved (PostData found (length (Post_docs w))), w)))"
proof -
  define k where "k = (case page of None \<Rightarrow> (1::int) | Some n \<Rightarrow> if n = 0 then 1 else n)"
  define slice where
    "slice = take (nat 2) (drop (nat ((k - 1) * 2)) (sort_createdAt_desc (Post_docs w)))"
  have run: "posts page req w = catch_log (posts_try k w)"
    using assms by (simp add: posts_def k_def)
  have neg: "posts page req w =
               (Resolved Undefined,
                w\<lparr>console := console w @ [new_Error ''MongoError: Skip value must be non-negative'']\<rparr>)"
    if "(k - 1) * 2 < 0"
    using that by (simp add: run posts_try_def catch_log_def)
  have ok: "posts page req w =
              (Resolved (PostData (map (\<lambda>p. populate p w) slice) (length (Post_docs w))), w)"
    if "\<not> (k - 1) * 2 < 0"
    using that by (simp add: run posts_try_def catch_log_def slice_def)
  have len: "length slice \<le> 2" by (simp add: slice_def)
  have srt: "sorted_wrt (\<lambda>a b. p_createdAt b \<le> p_createdAt a) slice"
    unfolding slice_def
    by (intro sorted_wrt_take sorted_wrt_drop sorted_desc_sort_createdAt)
  have sub: "set slice \<subseteq> set (Post_docs w)"
  proof -
    have "set slice \<subseteq> set (sort_createdAt_desc (Post_docs w))"
      unfolding slice_def by (meson set_take_subset set_drop_subset subset_trans)
    then show ?thesis by (simp add: set_sort_createdAt)
  qed
  have fst_pop: "map fst (map (\<lambda>p. populate p w) slice) = slice"
    by (simp add: populate_def comp_def)
  have first: "posts page req w = (Resolved (PostData ps totalPosts), w') \<longrightarrow>
            length ps \<le> 2 \<and>
            sorted_wrt (\<lambda>a b. p_createdAt (fst b) \<le> p_createdAt (fst a)) ps \<and>
            set (map fst ps) \<subseteq> set (Post_docs w) \<and>
            totalPosts = length (Post_docs w) \<and> w' = w"
  proof (cases "(k - 1) * 2 < 0")
    case True
    then show ?thesis by (simp add: neg)
  next
    case False
    show ?thesis
    proof
      assume r: "posts page req w = (Resolved (PostData ps totalPosts), w')"
      from r ok [OF False] have ps: "ps = map (\<lambda>p. populate p w) slice"
        and t: "totalPosts = length (Post_docs w)" and w: "w' = w"
        by auto
      have "sorted_wrt (\<lambda>a b. p_createdAt (fst b) \<le> p_createdAt (fst a)) ps"
        using srt by (simp add: ps sorted_wrt_map populate_def)
      moreover have "set (map fst ps) \<subseteq> set (Post_docs w)"
        using sub fst_pop by (simp only: ps)
      ultimately show "length ps \<le> 2 \<and>
            sorted_wrt (\<lambda>a b. p_createdAt (fst b) \<le> p_createdAt (fst a)) ps \<and>
            set (map fst ps) \<subseteq> set (Post_docs w) \<and>
            totalPosts = length (Post_docs w) \<and> w' = w"
        using len t w by (simp add: ps)
    qed
  qed
  have second: "page = None \<or> (\<exists>n. page = Some n \<and> 0 \<le> n) \<longrightarrow>
            (\<exists>found. posts page req w = (Resolved (PostData found (length (Post_docs w))), w))"
  proof
    assume "page = None \<or> (\<exists>n. page = Some n \<and> 0 \<le> n)"
    then have "1 \<le> k" by (auto simp add: k_def)
    then have "\<not> (k - 1) * 2 < 0" by simp
    from ok [OF this]
    show "\<exists>found. posts page req w = (Resolved (PostData found (length (Post_docs w))), w)"
      by blast
  qed
  from first second show ?thesis by blast
qed

theorem posts_page_witness:
  "isAuth as_alice \<and>
   posts None as_alice sample_world =
     (Resolved (PostData [(post11, Some bob), (post12, Some alice)] 3), sample_world) \<and>
   sorted_wrt (\<lambda>a b. p_createdAt (fst b) \<le> p_createdAt (fst a))
     [(post11, Some bob), (post12, Some alice)] \<and>
   length (Post_docs sample_world) = 3 \<and>
   (\<exists>found. posts (Some 2) as_alice sample_world = (Resolved (PostData found 3), sample_world))"
proof -
  have a: "isAuth as_alice" by (simp add: sample_defs)
  have r: "posts None as_alice sample_world =
     (Resolved (PostData [(post11, Some bob), (post12, Some alice)] 3), sample_world)"
    by (simp add: posts_def posts_try_def catch_log_def sort_createdAt_desc_def store_defs
        sample_defs)
  have n: "length (Post_docs sample_world) = 3" by (simp add: sample_defs)
  show ?thesis
    using a r n
      posts_page [OF a, of None sample_world "[(post11, Some bob), (post12, Some alice)]" 3
        sample_world]
      posts_page [OF a, of "Some 2" sample_world]
    by simp
qed

subsection \<open>The authorization gate\<close>

text \<open>
  C6. Every operation that requires a signed-in user (createPost, posts, post,
  updatePost, deletePost, user, updateStatus), called on a request whose authenticated
  flag is not set, rejects with the error \<^verbatim>\<open>Not authenticated!\<close> with code 401,
  whatever its arguments and whatever the store holds (so before any validation and any
  access to the store), and the state is unchanged: nothing is stored, removed or
  written to the console.
\<close>

theorem unauthenticated_rejected:
  assumes "\<not> isAuth req"
  shows "createPost e postInput req w =
           (Rejected ((new_Error ''Not authenticated!'')\<lparr>code := Some 401\<rparr>), w) \<and>
         posts page req w =
           (Rejected ((new_Error ''Not authenticated!'')\<lparr>code := Some 401\<rparr>), w) \<and>
         post i req w =
           (Rejected ((new_Error ''Not authenticated!'')\<lparr>code := Some 401\<rparr>), w) \<and>
         updatePost e i postInput req w =
           (Rejected ((new_Error ''Not authenticated!'')\<lparr>code := Some 401\<rparr>), w) \<and>
         deletePost i req w =
           (Rejected ((new_Error ''Not authenticated!'')\<lparr>code := Some 401\<rparr>), w) \<and>
         user req w =
           (Rejected ((new_Error ''Not authenticated!'')\<lparr>code := Some 401\<rparr>), w) \<and>
         updateStatus status req w =
           (Rejected ((new_Error ''Not authenticated!'')\<lparr>code := Some 401\<rparr>), w)"
  using assms
  by (simp add: createPost_def posts_def post_def updatePost_def deletePost_def user_def
      updateStatus_def)

theorem unauthenticated_rejected_witness:
  "isAuth anonymous = False \<and>
   createPost sample_env \<lparr>title = ''Hi'', content = [], imageUrl = ''images/h.png''\<rparr>
       anonymous sample_world =
     (Rejected ((new_Error ''Not authenticated!'')\<lparr>code := Some 401\<rparr>), sample_world) \<and>
   posts (Some 1) anonymous sample_world =
     (Rejected ((new_Error ''Not authenticated!'')\<lparr>code := Some 401\<rparr>), sample_world) \<and>
   post 10 anonymous sample_world =
     (Rejected ((new_Error ''Not authenticated!'')\<lparr>code := Some 401\<rparr>), sample_world) \<and>
   updatePost sample_env 10 \<lparr>title = ''Hi'', content = [], imageUrl = ''images/h.png''\<rparr>
       anonymous sample_world =
     (Rejected ((new_Error ''Not authenticated!'')\<lparr>code := Some 401\<rparr>), sample_world) \<and>
   deletePost 10 anonymous sample_world =
     (Rejected ((new_Error ''Not authenticated!'')\<lparr>code := Some 401\<rparr>), sample_world) \<and>
   user anonymous sample_world =
     (Rejected ((new_Error ''Not authenticated!'')\<lparr>code := Some 401\<rparr>), sample_world) \<and>
   updateStatus ''busy'' anonymous sample_world =
     (Rejected ((new_Error ''Not authenticated!'')\<lparr>code := Some 401\<rparr>), sample_world)"
proof -
  have a: "\<not> isAuth anonymous" by (simp add: sample_defs)
  show ?thesis
    using a unauthenticated_rejected [OF a, of sample_env
        "\<lparr>title = ''Hi'', content = [], imageUrl = ''images/h.png''\<rparr>" sample_world
        "Some 1" 10 "''busy''"]
    by simp
qed

subsection \<open>The order of the checks\<close>

text \<open>
  C7, as stated, fails: validation does not come before the business checks in every
  resolver. In updatePost the post is looked up and its ownership checked before the
  title and the content are. Bob's update of Alice's post 10 with the title
  \<^verbatim>\<open>Hi\<close> does not end in the validation error with code 422: the ownership error is
  the one thrown.
\<close>

theorem updatePost_non_owner_invalid_counterexample:
  "isAuth as_bob \<and> Post_findById 10 sample_world = Some post10 \<and>
   Some (p_creator post10) \<noteq> userId as_bob \<and>
   length (title \<lparr>title = ''Hi'', content = ''Some content'', imageUrl = ''undefined''\<rparr>) < 5 \<and>
   updatePost sample_env 10
       \<lparr>title = ''Hi'', content = ''Some content'', imageUrl = ''undefined''\<rparr>
       as_bob sample_world =
     (Resolved Undefined,
      sample_world\<lparr>console := [(new_Error ''Unauthorized.'')\<lparr>code := Some 403\<rparr>]\<rparr>) \<and>
   fst (updatePost sample_env 10
          \<lparr>title = ''Hi'', content = ''Some content'', imageUrl = ''undefined''\<rparr>
          as_bob sample_world) \<noteq>
     Rejected ((new_Error ''Invalid input.'')
                 \<lparr>data := Some [''Title is invalid.''], code := Some 422\<rparr>)"
  by (simp add: updatePost_def updatePost_try_def catch_log_def store_defs sample_defs)

text \<open>
  C7, amended. In createUser and createPost the field checks come before the business
  checks: invalid input is rejected with the 422 validation error whatever the store
  holds (the email may be registered, the user may be unknown). In updatePost the
  existence and ownership checks come first: for an authenticated call on a post that
  does not exist the try block throws \<^verbatim>\<open>Post not found.\<close> (code 401), and for one by a
  user who is not the creator of the post it throws the ownership error with code 403,
  in both cases whether or not the title and the content are valid.
\<close>

theorem validation_order:
  "(\<not> isEmail e email \<or> length password < 5 \<longrightarrow>
      (\<exists>msgs. createUser e email name password w =
         (Rejected ((new_Error ''Invalid input.'')\<lparr>data := Some msgs, code := Some 422\<rparr>), w))) \<and>
   (isAuth req \<and> (length (title postInput) < 5 \<or> length (content postInput) < 5) \<longrightarrow>
      (\<exists>msgs. createPost e postInput req w =
         (Rejected ((new_Error ''Invalid input.'')\<lparr>data := Some msgs, code := Some 422\<rparr>), w))) \<and>
   (isAuth req \<and> Post_findById i w = None \<longrightarrow>
      updatePost_try e i postInput req w =
        (Inl ((new_Error ''Post not found.'')\<lparr>code := Some 401\<rparr>), w)) \<and>
   (isAuth req \<and> Post_findById i w = Some found \<and>
    User_findById (Some (p_creator found)) w = Some creator \<and>
    userId req = Some me \<and> u_id creator \<noteq> me \<longrightarrow>
      updatePost_try e i postInput req w =
        (Inl ((new_Error ''Unauthorized.'')\<lparr>code := Some 403\<rparr>), w))"
  by (auto simp add: createUser_def createPost_def updatePost_try_def populate_def
      isEmpty_def isLength_def)

theorem validation_order_witness:
  "(\<exists>msgs. createUser sample_env ''alice@example.com'' ''Alice'' ''abc'' sample_world =
      (Rejected ((new_Error ''Invalid input.'')\<lparr>data := Some msgs, code := Some 422\<rparr>),
       sample_world)) \<and>
   (\<exists>msgs. createPost sample_env
              \<lparr>title = ''Hi'', content = ''Some content'', imageUrl = ''undefined''\<rparr>
              \<lparr>isAuth = True, userId = Some 99\<rparr> sample_world =
      (Rejected ((new_Error ''Invalid input.'')\<lparr>data := Some msgs, code := Some 422\<rparr>),
       sample_world)) \<and>
   updatePost_try sample_env 99
       \<lparr>title = ''Hi'', content = ''Some content'', imageUrl = ''undefined''\<rparr>
       as_bob sample_world =
     (Inl ((new_Error ''Post not found.'')\<lparr>code := Some 401\<rparr>), sample_world) \<and>
   updatePost_try sample_env 10
       \<lparr>title = ''Hi'', content = ''Some content'', imageUrl = ''undefined''\<rparr>
       as_bob sample_world =
     (Inl ((new_Error ''Unauthorized.'')\<lparr>code := Some 403\<rparr>), sample_world)"
proof -
  have p: "Post_findById 10 sample_world = Some post10"
    by (simp add: store_defs sample_defs)
  have q: "Post_findById 99 sample_world = None"
    by (simp add: store_defs sample_defs)
  have c: "User_findById (Some (p_creator post10)) sample_world = Some alice"
    by (simp add: store_defs sample_defs)
  have m: "isAuth as_bob \<and> userId as_bob = Some 2 \<and> u_id alice \<noteq> 2"
    by (simp add: sample_defs)
  show ?thesis
    using p q c m
      validation_order [of sample_env "''alice@example.com''" "''abc''" "''Alice''" sample_world
        "\<lparr>isAuth = True, userId = Some 99\<rparr>"
        "\<lparr>title = ''Hi'', content = ''Some content'', imageUrl = ''undefined''\<rparr>"]
      validation_order [of sample_env "''alice@example.com''" "''abc''" "''Alice''" sample_world
        as_bob
        "\<lparr>title = ''Hi'', content = ''Some content'', imageUrl = ''undefined''\<rparr>"
        99]
      validation_order [of sample_env "''alice@example.com''" "''abc''" "''Alice''" sample_world
        as_bob
        "\<lparr>title = ''Hi'', content = ''Some content'', imageUrl = ''undefined''\<rparr>"
        10 post10 alice 2]
    by simp
qed

subsection \<open>Rendering errors\<close>

lemma status_not_in_scope: "''status'' \<notin> set app_js_scope"
  by (simp add: app_js_scope_def)

text \<open>
  Whenever the GraphQL error wraps an error thrown by a resolver, the formatter throws:
  it computes \<^verbatim>\<open>code\<close> and then reads \<^verbatim>\<open>status\<close>, which nothing declares.
\<close>

lemma formatError_throws_ReferenceError:
  assumes "originalError err = Some orig"
  shows "formatError err = Inl (new_Error ''ReferenceError: status is not defined'')"
  using assms by (simp add: formatError_def app_js_scope_def)

lemma formatError_without_originalError:
  "originalError err = None \<Longrightarrow> formatError err = Inr (Unformatted err)"
  by (simp add: formatError_def)

text \<open>
  The Express error handler answers with the body \<^verbatim>\<open>{message, data}\<close> and the status
  read from \<^verbatim>\<open>error.statusCode\<close>, 500 when there is none. The image route's error has
  none.
\<close>

lemma error_handler_response:
  "res_status (error_handler error) =
     (case statusCode error of None \<Rightarrow> 500 | Some s \<Rightarrow> if s = 0 then 500 else s) \<and>
   res_message (error_handler error) = message error \<and>
   res_data (error_handler error) = data error"
  by (simp add: error_handler_def)

lemma put_post_image_unauthenticated:
  assumes "\<not> isAuth req" and "put_post_image req upload oldPath w = (Inl err, w')"
  shows "w' = w \<and> res_status (error_handler err) = 500 \<and>
         res_message (error_handler err) = ''Not authenticated!'' \<and>
         res_data (error_handler err) = None"
  using assms by (auto simp add: put_post_image_def error_handler_def new_Error_def)

text \<open>
  C8. An error propagated out of a resolver should be rendered as \<^verbatim>\<open>{message, data}\<close>
  with the status taken from the code attached to it. At this input (the error of an
  unauthenticated createPost, code 401, wrapped by the GraphQL layer) the formatter
  renders nothing: it throws a ReferenceError.
\<close>

theorem formatError_resolver_error_throws:
  "fst (createPost sample_env
          \<lparr>title = ''Hello World'', content = ''Hello World'', imageUrl = ''images/h.png''\<rparr>
          anonymous sample_world) =
     Rejected ((new_Error ''Not authenticated!'')\<lparr>code := Some 401\<rparr>) \<and>
   formatError \<lparr>gql_message = ''Not authenticated!'',
                originalError = Some ((new_Error ''Not authenticated!'')\<lparr>code := Some 401\<rparr>)\<rparr> =
     Inl (new_Error ''ReferenceError: status is not defined'')"
  by (simp add: createPost_def formatError_def app_js_scope_def sample_defs)

subsection \<open>The image path in updatePost\<close>

text \<open>For the owner of the post, the try block comes down to the field checks and the save.\<close>

lemma updatePost_try_owner:
  assumes "Post_findById i w = Some old" and "snd (populate old w) = Some creator"
    and "userId req = Some me" and "u_id creator = me"
  shows "updatePost_try e i postInput req w =
           (if isEmpty (title postInput) \<or> \<not> isLength (title postInput) 5 \<or>
               isEmpty (content postInput) \<or> \<not> isLength (content postInput) 5
            then (Inl ((new_Error ''Invalid input.'')
                    \<lparr>data := Some ((if isEmpty (title postInput) \<or> \<not> isLength (title postInput) 5
                                    then [''Title is invalid.''] else []) @
                                   (if isEmpty (content postInput) \<or> \<not> isLength (content postInput) 5
                                    then [''Content is invalid.''] else [])),
                     code := Some 422\<rparr>), w)
            else (let post1 = old\<lparr>p_title := title postInput, p_content := content postInput\<rparr>;
                      post2 = (if imageUrl postInput \<noteq> ''undefined''
                               then post1\<lparr>p_imageUrl := imageUrl postInput\<rparr>
                               else post1);
                      updatedPost = (if post2 = old then old else post2\<lparr>p_updatedAt := now e\<rparr>)
                  in (Inr (PostDoc updatedPost (Some creator)),
                      w\<lparr>Post_docs := post_save updatedPost (Post_docs w)\<rparr>)))"
  unfolding updatePost_try_def using assms by simp

text \<open>
  C9, as stated, fails: a successful updatePost by the owner does not store every
  supplied image path. Alice updates her post 10 with the image path
  \<^verbatim>\<open>undefined\<close>; the update succeeds and the stored path is still
  \<^verbatim>\<open>images/a.png\<close>.
\<close>

theorem updatePost_imageUrl_undefined_counterexample:
  "isAuth as_alice \<and> userId as_alice = Some (p_creator post10) \<and>
   Post_findById 10 sample_world = Some post10 \<and>
   fst (updatePost sample_env 10
          \<lparr>title = ''New title'', content = ''New content'', imageUrl = ''undefined''\<rparr>
          as_alice sample_world) =
     Resolved (PostDoc \<lparr>p_id = 10, p_title = ''New title'', p_content = ''New content'',
                        p_imageUrl = ''images/a.png'', p_creator = 1, p_createdAt = 100,
                        p_updatedAt = 1000\<rparr> (Some alice)) \<and>
   map_option p_imageUrl
     (Post_findById 10
        (snd (updatePost sample_env 10
                \<lparr>title = ''New title'', content = ''New content'', imageUrl = ''undefined''\<rparr>
                as_alice sample_world))) = Some ''images/a.png'' \<and>
   ''images/a.png'' \<noteq>
     imageUrl \<lparr>title = ''New title'', content = ''New content'', imageUrl = ''undefined''\<rparr>"
  by (simp add: updatePost_def updatePost_try_def catch_log_def isEmpty_def isLength_def
      store_defs sample_defs Let_def)

text \<open>
  C9, amended. For every successful updatePost call (it resolves with the updated
  post), the post returned is the post now stored under the id, and its image path is
  the supplied one for every supplied string other than \<^verbatim>\<open>undefined\<close>; when the
  supplied string is \<^verbatim>\<open>undefined\<close>, the image path is the one stored before.
\<close>

theorem updatePost_imageUrl:
  assumes "updatePost e i postInput req w = (Resolved (PostDoc updated c), w')"
  shows "Post_findById i w' = Some updated \<and>
         (\<exists>old. Post_findById i w = Some old \<and>
                p_imageUrl updated =
                  (if imageUrl postInput = ''undefined'' then p_imageUrl old
                   else imageUrl postInput))"
proof -
  from assms have "catch_log (updatePost_try e i postInput req w) =
                     (Resolved (PostDoc updated c), w')"
    by (simp add: updatePost_def split: if_splits)
  then have t: "updatePost_try e i postInput req w = (Inr (PostDoc updated c), w')"
    by (rule catch_log_defined) simp
  then obtain old where old: "Post_findById i w = Some old"
    by (cases "Post_findById i w") (auto simp add: updatePost_try_def)
  from t old obtain creator where cr: "snd (populate old w) = Some creator"
    by (cases "snd (populate old w)") (auto simp add: updatePost_try_def)
  from t old cr obtain me where me: "userId req = Some me"
    by (cases "userId req") (auto simp add: updatePost_try_def)
  from t old cr me have own: "u_id creator = me"
    by (cases "u_id creator = me") (auto simp add: updatePost_try_def)
  define post1 where "post1 = old\<lparr>p_title := title postInput, p_content := content postInput\<rparr>"
  define post2 where
    "post2 = (if imageUrl postInput \<noteq> ''undefined''
              then post1\<lparr>p_imageUrl := imageUrl postInput\<rparr> else post1)"
  define saved where "saved = (if post2 = old then old else post2\<lparr>p_updatedAt := now e\<rparr>)"
  have fold: "(let post1 = old\<lparr>p_title := title postInput, p_content := content postInput\<rparr>;
                   post2 = (if imageUrl postInput \<noteq> ''undefined''
                            then post1\<lparr>p_imageUrl := imageUrl postInput\<rparr>
                            else post1);
                   updatedPost = (if post2 = old then old else post2\<lparr>p_updatedAt := now e\<rparr>)
               in (Inr (PostDoc updatedPost (Some creator)),
                   w\<lparr>Post_docs := post_save updatedPost (Post_docs w)\<rparr>)) =
              ((Inr (PostDoc saved (Some creator)),
                w\<lparr>Post_docs := post_save saved (Post_docs w)\<rparr>) :: (js_error + resolved) \<times> world)"
    unfolding Let_def saved_def post2_def post1_def by (rule refl)
  have both: "saved = updated \<and> w\<lparr>Post_docs := post_save saved (Post_docs w)\<rparr> = w'"
    using t unfolding updatePost_try_owner [OF old cr me own] fold
    by (clarsimp split: if_splits)
  then have "w' = w\<lparr>Post_docs := post_save saved (Post_docs w)\<rparr>"
    by (rule conjunct2 [THEN sym])
  then have w': "Post_docs w' = post_save saved (Post_docs w)"
    by simp
  from both have res: "updated = saved"
    by (rule conjunct1 [THEN sym])
  have idold: "p_id old = i"
    using old unfolding Post_findById_def by (rule find_Some_p_id)
  have id2: "p_id post2 = i"
    using idold by (simp add: post2_def post1_def)
  have img2: "p_imageUrl post2 =
               (if imageUrl postInput = ''undefined'' then p_imageUrl old else imageUrl postInput)"
    by (simp add: post2_def post1_def)
  have sv: "p_id saved = i \<and> p_imageUrl saved = p_imageUrl post2"
  proof (cases "post2 = old")
    case True
    then have "saved = post2" by (simp add: saved_def)
    with id2 show ?thesis by simp
  next
    case False
    then have "saved = post2\<lparr>p_updatedAt := now e\<rparr>" by (simp add: saved_def)
    with id2 show ?thesis by simp
  qed
  have "Post_findById i w' = Some saved"
    using old sv by (simp add: Post_findById_def w' find_post_save)
  with res sv img2 old show ?thesis by simp
qed

theorem updatePost_imageUrl_witness:
  "updatePost sample_env 10
       \<lparr>title = ''New title'', content = ''New content'', imageUrl = ''images/new.png''\<rparr>
       as_alice sample_world =
     (Resolved (PostDoc \<lparr>p_id = 10, p_title = ''New title'', p_content = ''New content'',
                         p_imageUrl = ''images/new.png'', p_creator = 1, p_createdAt = 100,
                         p_updatedAt = 1000\<rparr> (Some alice)),
      sample_world\<lparr>Post_docs :=
        [\<lparr>p_id = 10, p_title = ''New title'', p_content = ''New content'',
          p_imageUrl = ''images/new.png'', p_creator = 1, p_createdAt = 100,
          p_updatedAt = 1000\<rparr>, post11, post12]\<rparr>) \<and>
   Post_findById 10
     (sample_world\<lparr>Post_docs :=
        [\<lparr>p_id = 10, p_title = ''New title'', p_content = ''New content'',
          p_imageUrl = ''images/new.png'', p_creator = 1, p_createdAt = 100,
          p_updatedAt = 1000\<rparr>, post11, post12]\<rparr>) =
     Some \<lparr>p_id = 10, p_title = ''New title'', p_content = ''New content'',
           p_imageUrl = ''images/new.png'', p_creator = 1, p_createdAt = 100,
           p_updatedAt = 1000\<rparr>"
proof -
  have r: "updatePost sample_env 10
       \<lparr>title = ''New title'', content = ''New content'', imageUrl = ''images/new.png''\<rparr>
       as_alice sample_world =
     (Resolved (PostDoc \<lparr>p_id = 10, p_title = ''New title'', p_content = ''New content'',
                         p_imageUrl = ''images/new.png'', p_creator = 1, p_createdAt = 100,
                         p_updatedAt = 1000\<rparr> (Some alice)),
      sample_world\<lparr>Post_docs :=
        [\<lparr>p_id = 10, p_title = ''New title'', p_content = ''New content'',
          p_imageUrl = ''images/new.png'', p_creator = 1, p_createdAt = 100,
          p_updatedAt = 1000\<rparr>, post11, post12]\<rparr>)"
    by (simp add: updatePost_def updatePost_try_def catch_log_def isEmpty_def isLength_def
        store_defs sample_defs Let_def)
  show ?thesis
    using r updatePost_imageUrl [OF r] by simp
qed

subsection \<open>The password hash in returned user records\<close>

lemma createUser_UserDoc:
  assumes "createUser e email name password w = (Resolved (UserDoc r), w')"
  shows "u_password r = bcrypt_hash e password \<and> User_docs w' = User_docs w @ [r]"
proof -
  from assms have "catch_log (createUser_try e email name password w) = (Resolved (UserDoc r), w')"
    by (simp add: createUser_def Let_def split: if_splits)
  then have t: "createUser_try e email name password w = (Inr (UserDoc r), w')"
    by (rule catch_log_defined) simp
  show ?thesis
  proof (cases "User_findOne email w")
    case None
    with t show ?thesis by (auto simp add: createUser_try_def Let_def)
  next
    case (Some existingUser)
    with t show ?thesis by (simp add: createUser_try_def)
  qed
qed

lemma user_UserDoc:
  assumes "user req w = (Resolved (UserDoc r), w')"
  shows "User_findById (userId req) w = Some r \<and> w' = w"
proof -
  from assms have "catch_log (user_try req w) = (Resolved (UserDoc r), w')"
    by (simp add: user_def split: if_splits)
  then have t: "user_try req w = (Inr (UserDoc r), w')"
    by (rule catch_log_defined) simp
  then show ?thesis
    by (cases "User_findById (userId req) w") (auto simp add: user_try_def)
qed

lemma updateStatus_UserDoc:
  assumes "updateStatus status req w = (Resolved (UserDoc r), w')"
  shows "(\<exists>stored. User_findById (userId req) w = Some stored \<and>
                   u_password r = u_password stored) \<and>
         User_findById (userId req) w' = Some r"
proof -
  from assms have "catch_log (updateStatus_try status req w) = (Resolved (UserDoc r), w')"
    by (simp add: updateStatus_def split: if_splits)
  then have t: "updateStatus_try status req w = (Inr (UserDoc r), w')"
    by (rule catch_log_defined) simp
  then obtain stored where st: "User_findById (userId req) w = Some stored"
    by (cases "User_findById (userId req) w") (auto simp add: updateStatus_try_def)
  from t st have r: "r = stored\<lparr>u_status := status\<rparr>"
    and w': "w' = w\<lparr>User_docs := user_save (stored\<lparr>u_status := status\<rparr>) (User_docs w)\<rparr>"
    by (auto simp add: updateStatus_try_def Let_def)
  from st obtain k where k: "userId req = Some k"
    and f: "find (\<lambda>u. u_id u = k) (User_docs w) = Some stored"
    by (cases "userId req") (auto simp add: User_findById_def)
  have "u_id (stored\<lparr>u_status := status\<rparr>) = k"
    using find_Some_u_id [OF f] by simp
  with f have "find (\<lambda>u. u_id u = k) (user_save (stored\<lparr>u_status := status\<rparr>) (User_docs w)) =
                 Some (stored\<lparr>u_status := status\<rparr>)"
    by (rule find_user_save)
  with r w' k st show ?thesis
    by (simp add: User_findById_def)
qed

text \<open>
  C10. Every successful createUser, user or updateStatus call returns the user record
  with its stored password hash: createUser returns the record it stored, whose password
  field is the hash of the supplied password; user returns the stored record as it is;
  updateStatus returns the record it stored back, whose password field is the one that
  was stored.
\<close>

theorem user_records_carry_password:
  "(createUser e email name password w = (Resolved (UserDoc r), w') \<longrightarrow>
      u_password r = bcrypt_hash e password \<and> User_docs w' = User_docs w @ [r]) \<and>
   (user req w = (Resolved (UserDoc r), w') \<longrightarrow>
      User_findById (userId req) w = Some r \<and> w' = w) \<and>
   (updateStatus status req w = (Resolved (UserDoc r), w') \<longrightarrow>
      (\<exists>stored. User_findById (userId req) w = Some stored \<and>
                u_password r = u_password stored) \<and>
      User_findById (userId req) w' = Some r)"
  using createUser_UserDoc [of e email name password w r w']
    user_UserDoc [of req w r w'] updateStatus_UserDoc [of status req w r w']
  by blast

theorem user_records_carry_password_witness:
  "createUser sample_env ''carol@example.com'' ''Carol'' ''abcdef'' sample_world =
     (Resolved (UserDoc \<lparr>u_id = 20, u_email = ''carol@example.com'', u_name = ''Carol'',
                         u_password = ''hash:abcdef'', u_status = ''I am new!'', u_posts = []\<rparr>),
      sample_world\<lparr>User_docs := [alice, bob,
          \<lparr>u_id = 20, u_email = ''carol@example.com'', u_name = ''Carol'',
           u_password = ''hash:abcdef'', u_status = ''I am new!'', u_posts = []\<rparr>],
        next_id := 21\<rparr>) \<and>
   bcrypt_hash sample_env ''abcdef'' = ''hash:abcdef'' \<and>
   user as_alice sample_world = (Resolved (UserDoc alice), sample_world) \<and>
   User_findById (userId as_alice) sample_world = Some alice \<and>
   u_password alice = ''hash:secret'' \<and>
   updateStatus ''busy'' as_alice sample_world =
     (Resolved (UserDoc (alice\<lparr>u_status := ''busy''\<rparr>)),
      sample_world\<lparr>User_docs := [alice\<lparr>u_status := ''busy''\<rparr>, bob]\<rparr>) \<and>
   User_findById (userId as_alice)
     (sample_world\<lparr>User_docs := [alice\<lparr>u_status := ''busy''\<rparr>, bob]\<rparr>) =
     Some (alice\<lparr>u_status := ''busy''\<rparr>)"
proof -
  have c: "createUser sample_env ''carol@example.com'' ''Carol'' ''abcdef'' sample_world =
     (Resolved (UserDoc \<lparr>u_id = 20, u_email = ''carol@example.com'', u_name = ''Carol'',
                         u_password = ''hash:abcdef'', u_status = ''I am new!'', u_posts = []\<rparr>),
      sample_world\<lparr>User_docs := [alice, bob,
          \<lparr>u_id = 20, u_email = ''carol@example.com'', u_name = ''Carol'',
           u_password = ''hash:abcdef'', u_status = ''I am new!'', u_posts = []\<rparr>],
        next_id := 21\<rparr>)"
    by (simp add: createUser_def createUser_try_def catch_log_def isEmpty_def isLength_def
        store_defs sample_defs Let_def)
  have u: "user as_alice sample_world = (Resolved (UserDoc alice), sample_world)"
    by (simp add: user_def user_try_def catch_log_def store_defs sample_defs)
  have s: "updateStatus ''busy'' as_alice sample_world =
     (Resolved (UserDoc (alice\<lparr>u_status := ''busy''\<rparr>)),
      sample_world\<lparr>User_docs := [alice\<lparr>u_status := ''busy''\<rparr>, bob]\<rparr>)"
    by (simp add: updateStatus_def updateStatus_try_def catch_log_def store_defs sample_defs
        Let_def)
  have h: "bcrypt_hash sample_env ''abcdef'' = ''hash:abcdef''" by (simp add: sample_defs)
  have p: "u_password alice = ''hash:secret''" by (simp add: sample_defs)
  from c user_records_carry_password
  have c': "u_password \<lparr>u_id = 20, u_email = ''carol@example.com'', u_name = ''Carol'',
                u_password = ''hash:abcdef'', u_status = ''I am new!'', u_posts = []\<rparr> =
              bcrypt_hash sample_env ''abcdef''"
    by blast
  from u user_records_carry_password
  have u': "User_findById (userId as_alice) sample_world = Some alice"
    by blast
  from s user_records_carry_password
  have s': "User_findById (userId as_alice)
              (sample_world\<lparr>User_docs := [alice\<lparr>u_status := ''busy''\<rparr>, bob]\<rparr>) =
            Some (alice\<lparr>u_status := ''busy''\<rparr>)"
    by blast
  from c u s h p c' u' s' show ?thesis by simp
qed

end
